theory Spec2Isabelle
  imports Main
begin

section \<open>djangosaml2 views: data model\<close>

text \<open>
  A shallow embedding of \<^verbatim>\<open>djangosaml2/views.py\<close>. Calls into pysaml2 are arguments
  of the view functions, and so are configuration loading, authentication and the
  helpers of \<^verbatim>\<open>utils.py\<close>; Django's \<^verbatim>\<open>auth.logout\<close> and its logout view are written
  out. Every raise of the source is a value \<open>Inl e\<close> of the result type, every returned
  response a value \<open>Inr r\<close>.
\<close>

type_synonym binding = string

definition BINDING_HTTP_REDIRECT :: binding where
  "BINDING_HTTP_REDIRECT = ''urn:oasis:names:tc:SAML:2.0:bindings:HTTP-Redirect''"

definition BINDING_HTTP_POST :: binding where
  "BINDING_HTTP_POST = ''urn:oasis:names:tc:SAML:2.0:bindings:HTTP-POST''"

text \<open>The exceptions that the views raise, catch or let through.\<close>

datatype exn =
    StatusError
  | StatusAuthnFailed
  | StatusRequestDenied
  | StatusNoAuthnContext
  | ToEarly
  | ResponseLifetimeExceed
  | SignatureError
  | MissingKey
  | UnsolicitedResponse
  | SuspiciousOperation
  | PermissionDenied
  | IdPConfigurationMissing
  | UnsupportedBinding
  | SourceNotFound
  | LogoutError
  | Http404
  | KeyError
  | TypeError string
  | OtherError string

text \<open>
  A Django session. The views read and write it as a dictionary under fixed keys; each
  key the views use is a field here, \<open>None\<close> when the key is absent.
  \<open>session_modified\<close> is Django's flag \<^verbatim>\<open>session.modified\<close>, which every write sets.
\<close>

record session =
  saml2_subject_id :: "string option"
  oq_objects :: "(string \<rightharpoonup> string) option"
  state_objects :: "(string \<rightharpoonup> string) option"
  session_modified :: bool

text \<open>\<^verbatim>\<open>session.flush()\<close>, as Django's \<^verbatim>\<open>auth.logout\<close> calls it: all keys are removed.\<close>

definition flush :: "session \<Rightarrow> session" where
  "flush s = \<lparr>saml2_subject_id = None, oq_objects = None, state_objects = None,
              session_modified = True\<rparr>"

subsection \<open>Subject id in the session\<close>

text \<open>
  \<^verbatim>\<open>session['_saml2_subject_id'] = code(subject_id)\<close>; \<open>code\<close> and \<open>decode\<close> are
  pysaml2's (\<^verbatim>\<open>saml2.ident\<close>) and are the arguments \<open>enc\<close> and \<open>dec\<close> here.
\<close>

definition set_subject_id :: "('n \<Rightarrow> string) \<Rightarrow> session \<Rightarrow> 'n \<Rightarrow> session" where
  "set_subject_id enc s subject_id =
     s\<lparr>saml2_subject_id := Some (enc subject_id), session_modified := True\<rparr>"

text \<open>
  \<^verbatim>\<open>try: return decode(session['_saml2_subject_id']) except KeyError: return None\<close>:
  the result \<open>None\<close> is Python's \<^verbatim>\<open>None\<close>.
\<close>

definition get_subject_id :: "(string \<Rightarrow> 'n) \<Rightarrow> session \<Rightarrow> 'n option" where
  "get_subject_id dec s =
     (case saml2_subject_id s of None \<Rightarrow> None | Some txt \<Rightarrow> Some (dec txt))"

subsection \<open>Binding selection of the login view\<close>

text \<open>
  Lines 164 to 185 of \<^verbatim>\<open>login\<close>: the binding to try first, the switch to the other
  one, and the raise when that one is unsupported too.
\<close>

definition choose_binding :: "bool \<Rightarrow> binding list \<Rightarrow> exn + binding" where
  "choose_binding sign_requests supported_bindings =
     (let binding = (if sign_requests then BINDING_HTTP_POST else BINDING_HTTP_REDIRECT) in
      if binding \<notin> set supported_bindings then
        (let binding' = (if binding = BINDING_HTTP_POST then BINDING_HTTP_REDIRECT
                         else BINDING_HTTP_POST) in
         if binding' \<notin> set supported_bindings then Inl UnsupportedBinding
         else Inr binding')
      else Inr binding)"

subsection \<open>Requests, responses, settings\<close>

text \<open>
  pysaml2 hands back an \<^verbatim>\<open>http_info\<close> dictionary; the views read its keys
  \<^verbatim>\<open>method\<close>, \<^verbatim>\<open>data\<close> and \<^verbatim>\<open>headers\<close>, each of which may be missing.
\<close>

record http_info =
  hi_method :: "string option"
  hi_data :: "string option"
  hi_headers :: "(string \<times> string) list option"

datatype ctx_value = CStr string | CItems "(string \<times> string) list"

text \<open>
  What a view hands back. \<open>Render\<close> is \<^verbatim>\<open>render(request, template, context, status)\<close>,
  \<open>FailAcsResponse\<close> is \<^verbatim>\<open>fail_acs_response(request, status, exception)\<close>,
  \<open>RedirectWithCookie\<close> is the redirect on which \<^verbatim>\<open>set_cookie('Authentication', token)\<close>
  was called, \<open>DjangoLogout\<close> is the answer of Django's own logout view for a
  \<^verbatim>\<open>next_page\<close>, and \<open>RedirectToLogin\<close> is what \<^verbatim>\<open>@login_required\<close>
  answers to a user who is not logged in.
\<close>

datatype http_response =
    HttpResponse string nat
  | HttpResponseRedirect string
  | HttpResponseBadRequest string
  | HttpResponseServerError string
  | Render string "(string \<times> ctx_value) list" nat
  | FailAcsResponse exn "nat option"
  | RedirectWithCookie string string
  | DjangoLogout "string option"
  | RedirectToLogin

text \<open>
  The request: its query and form parameters, whether \<^verbatim>\<open>request.user.is_authenticated\<close>,
  a count of the calls of \<^verbatim>\<open>auth.logout(request)\<close> made so far, and two session
  stores: \<open>req_session\<close> is \<^verbatim>\<open>request.session\<close>, and \<open>saml_session\<close> is a store of its
  own for the SAML data, for deployments in which \<^verbatim>\<open>get_saml_request_session\<close> does not
  answer with \<^verbatim>\<open>request.session\<close>.
\<close>

record request =
  GET :: "string \<rightharpoonup> string"
  POST :: "string \<rightharpoonup> string"
  user_is_authenticated :: bool
  req_session :: session
  saml_session :: session
  auth_logout_calls :: nat

record settings =
  LOGIN_REDIRECT_URL :: string
  LOGOUT_REDIRECT_URL :: string
  SAML_IGNORE_AUTHENTICATED_USERS_ON_LOGIN :: "bool option"
  ACS_DEFAULT_REDIRECT_URL :: "string option"

text \<open>
  The loaded SP configuration, as far as the views look into it. \<open>available_idps\<close> is
  the dictionary that \<^verbatim>\<open>available_idps(conf)\<close> returns, in its iteration order, and
  \<open>idp_sso_supported_bindings\<close> is \<^verbatim>\<open>get_idp_sso_supported_bindings(idp, config=conf)\<close>.
\<close>

record conf =
  sp_force_authn :: bool
  sp_allow_create :: bool
  sp_authn_requests_signed :: bool
  sp_authn_requests_signed_alg :: "string option"
  available_idps :: "(string \<times> string) list"
  idp_sso_supported_bindings :: "string \<Rightarrow> binding list"

text \<open>A view either raises, returns early, or goes on with a value.\<close>

datatype 'a flow = Raise exn | Return http_response | Continue 'a

type_synonym view_result = "(exn + http_response) \<times> request"

subsection \<open>What the views call outside this file\<close>

text \<open>
  \<^verbatim>\<open>get_config\<close> (which raises or gives the configuration), \<^verbatim>\<open>validate_referral_url\<close>
  and \<^verbatim>\<open>get_location\<close> of \<^verbatim>\<open>utils.py\<close>, and \<^verbatim>\<open>get_saml_request_session\<close> of
  \<^verbatim>\<open>utils.py\<close>: which of the two stores of the request it answers with.
\<close>

datatype session_ref = DjangoSession | SamlSession

record site =
  get_config :: "exn + conf"
  validate_referral_url :: "string \<Rightarrow> string"
  get_location :: "http_info \<Rightarrow> string"
  saml_session_ref :: session_ref

text \<open>
  \<^verbatim>\<open>get_saml_request_session(request)\<close> answers with a session object, which the views
  then write to; \<open>set_saml_request_session\<close> is such a write.
\<close>

definition get_saml_request_session :: "site \<Rightarrow> request \<Rightarrow> session" where
  "get_saml_request_session sys request =
     (case saml_session_ref sys of
        DjangoSession \<Rightarrow> req_session request
      | SamlSession \<Rightarrow> saml_session request)"

definition set_saml_request_session :: "site \<Rightarrow> request \<Rightarrow> session \<Rightarrow> request" where
  "set_saml_request_session sys request s =
     (case saml_session_ref sys of
        DjangoSession \<Rightarrow> request\<lparr>req_session := s\<rparr>
      | SamlSession \<Rightarrow> request\<lparr>saml_session := s\<rparr>)"

subsection \<open>The caches kept in the session\<close>

text \<open>
  Modelled from the spec: class \<^verbatim>\<open>OutstandingQueriesCache\<close> of \<^verbatim>\<open>cache.py\<close> is not part
  of the sources at hand. Section 4.3 of the specification: \<open>put\<close> records the exchange
  under its request id, the snapshot lists the outstanding exchanges (none when nothing
  was ever recorded), and removal deletes the entry of one request id and does nothing
  when there is none.
\<close>

definition oq_outstanding_queries :: "session \<Rightarrow> (string \<rightharpoonup> string)" where
  "oq_outstanding_queries s = (case oq_objects s of None \<Rightarrow> Map.empty | Some m \<Rightarrow> m)"

definition oq_set :: "session \<Rightarrow> string \<Rightarrow> string \<Rightarrow> session" where
  "oq_set s saml2_session_id came_from =
     s\<lparr>oq_objects := Some ((oq_outstanding_queries s)(saml2_session_id \<mapsto> came_from)),
       session_modified := True\<rparr>"

definition oq_delete :: "session \<Rightarrow> string \<Rightarrow> session" where
  "oq_delete s saml2_session_id =
     (if oq_outstanding_queries s saml2_session_id = None then s
      else s\<lparr>oq_objects := Some ((oq_outstanding_queries s)(saml2_session_id := None)),
             session_modified := True\<rparr>)"

text \<open>
  Modelled from the spec: class \<^verbatim>\<open>StateCache\<close> of \<^verbatim>\<open>cache.py\<close> is not part of the
  sources at hand. Section 5 of the specification: the logout state is read from the
  session when the call starts (empty when the session has none) and \<open>sync\<close> writes the
  in-memory copy back to the session.
\<close>

definition StateCache :: "session \<Rightarrow> (string \<rightharpoonup> string)" where
  "StateCache s = (case state_objects s of None \<Rightarrow> Map.empty | Some m \<Rightarrow> m)"

definition state_sync :: "(string \<rightharpoonup> string) \<Rightarrow> session \<Rightarrow> session" where
  "state_sync state s = s\<lparr>state_objects := Some state, session_modified := True\<rparr>"

subsection \<open>The login view\<close>

text \<open>
  The three operations of \<^verbatim>\<open>Saml2Client\<close> that \<^verbatim>\<open>login\<close> uses, Django's template
  lookup and \<^verbatim>\<open>base64.b64encode\<close>.
\<close>

record login_env =
  prepare_for_authenticate ::
    "string \<Rightarrow> string \<Rightarrow> binding \<Rightarrow> bool option \<Rightarrow> (string \<times> string) list
      \<Rightarrow> exn + (string \<times> http_info)"
  sso_location :: "string \<Rightarrow> binding \<Rightarrow> exn + string"
  create_authn_request ::
    "string \<Rightarrow> binding \<Rightarrow> (string \<times> string) list \<Rightarrow> exn + (string \<times> string)"
  template_exists :: "string \<Rightarrow> bool"
  b64encode :: "string \<Rightarrow> string"

record login_args =
  wayf_template :: string
  authorization_error_template :: string
  post_binding_form_template :: "string option"

definition SIG_RSA_SHA1 :: string where
  "SIG_RSA_SHA1 = ''http://www.w3.org/2000/09/xmldsig#rsa-sha1''"

definition SIG_RSA_SHA256 :: string where
  "SIG_RSA_SHA256 = ''http://www.w3.org/2001/04/xmldsig-more#rsa-sha256''"

text \<open>\<^verbatim>\<open>sig_alg_option_map[sig_alg_option]\<close>, a \<^verbatim>\<open>KeyError\<close> on any other name.\<close>

definition sig_alg_option_map :: "string \<Rightarrow> exn + string" where
  "sig_alg_option_map alg =
     (if alg = ''sha1'' then Inr SIG_RSA_SHA1
      else if alg = ''sha256'' then Inr SIG_RSA_SHA256
      else Inl KeyError)"

text \<open>
  A call of the client inside \<^verbatim>\<open>try ... except TypeError as e: return HttpResponse(str(e))\<close>:
  a \<^verbatim>\<open>TypeError\<close> becomes the response with its message, any other exception goes up.
\<close>

definition except_TypeError :: "exn + 'a \<Rightarrow> 'a flow" where
  "except_TypeError r =
     (case r of
        Inl (TypeError msg) \<Rightarrow> Return (HttpResponse msg 200)
      | Inl e \<Rightarrow> Raise e
      | Inr v \<Rightarrow> Continue v)"

text \<open>Lines 141 to 146: the keyword arguments for pysaml2.\<close>

definition login_kwargs :: "conf \<Rightarrow> (string \<times> string) list" where
  "login_kwargs c =
     (if sp_force_authn c then [(''force_authn'', ''true'')] else []) @
     (if sp_allow_create c then [(''allow_create'', ''true'')] else [])"

text \<open>Lines 148 to 162: discovery page, missing configuration, or the IdP to use.\<close>

definition select_idp ::
  "login_args \<Rightarrow> string option \<Rightarrow> (string \<times> string) list \<Rightarrow> string \<Rightarrow> string flow" where
  "select_idp args selected_idp idps came_from =
     (if selected_idp = None \<and> length idps > 1 then
        Return (Render (wayf_template args)
                  [(''available_idps'', CItems idps), (''came_from'', CStr came_from)] 200)
      else if idps = [] then Raise IdPConfigurationMissing
      else (case selected_idp of
              None \<Rightarrow> Continue (fst (hd idps))
            | Some idp \<Rightarrow> Continue idp))"

text \<open>Lines 191 to 209: the HTTP-Redirect branch; the result is the session id and the response.\<close>

definition login_redirect ::
  "site \<Rightarrow> login_env \<Rightarrow> conf \<Rightarrow> string \<Rightarrow> string \<Rightarrow> (string \<times> string) list
    \<Rightarrow> (string \<times> http_response) flow" where
  "login_redirect sys env c selected_idp came_from kwargs =
     (case (if sp_authn_requests_signed c then
              (case sig_alg_option_map
                      (case sp_authn_requests_signed_alg c of None \<Rightarrow> ''sha1'' | Some a \<Rightarrow> a) of
                 Inl e \<Rightarrow> Inl e
               | Inr alg \<Rightarrow> Inr (kwargs @ [(''sigalg'', alg)]))
            else Inr kwargs) of
        Inl e \<Rightarrow> Raise e
      | Inr kwargs' \<Rightarrow>
          (case except_TypeError
                  (prepare_for_authenticate env selected_idp came_from BINDING_HTTP_REDIRECT
                     (Some False) kwargs') of
             Raise e \<Rightarrow> Raise e
           | Return r \<Rightarrow> Return r
           | Continue (session_id, result) \<Rightarrow>
               Continue (session_id, HttpResponseRedirect (get_location sys result))))"

text \<open>
  Lines 238 to 248: the form that pysaml2 itself provides, used when no template gave
  a response.
\<close>

definition login_post_default ::
  "login_env \<Rightarrow> string \<Rightarrow> string \<Rightarrow> (string \<times> http_response) flow" where
  "login_post_default env selected_idp came_from =
     (case except_TypeError
             (prepare_for_authenticate env selected_idp came_from BINDING_HTTP_POST None []) of
        Raise e \<Rightarrow> Raise e
      | Return r \<Rightarrow> Return r
      | Continue (session_id, result) \<Rightarrow>
          (case hi_data result of
             None \<Rightarrow> Raise KeyError
           | Some d \<Rightarrow> Continue (session_id, HttpResponse d 200)))"

text \<open>Lines 210 to 248: the HTTP-POST branch.\<close>

definition login_post ::
  "login_env \<Rightarrow> login_args \<Rightarrow> string \<Rightarrow> string \<Rightarrow> (string \<times> string) list
    \<Rightarrow> (string \<times> http_response) flow" where
  "login_post env args selected_idp came_from kwargs =
     (case post_binding_form_template args of
        None \<Rightarrow> login_post_default env selected_idp came_from
      | Some template \<Rightarrow>
          if template = [] then login_post_default env selected_idp came_from
          else
            (case except_TypeError (sso_location env selected_idp BINDING_HTTP_POST) of
               Raise e \<Rightarrow> Raise e
             | Return r \<Rightarrow> Return r
             | Continue location \<Rightarrow>
                 (case create_authn_request env location BINDING_HTTP_POST kwargs of
                    Inl e \<Rightarrow> Raise e
                  | Inr (session_id, request_xml) \<Rightarrow>
                      if template_exists env template then
                        Continue (session_id,
                          Render template
                            [(''target_url'', CStr location),
                             (''params'', CItems [(''SAMLRequest'', b64encode env request_xml),
                                                  (''RelayState'', came_from)])] 200)
                      else login_post_default env selected_idp came_from)))"

text \<open>Lines 104 to 108: the page to come back to.\<close>

definition login_came_from :: "settings \<Rightarrow> site \<Rightarrow> request \<Rightarrow> string" where
  "login_came_from st sys request =
     (let came_from = (case GET request ''next'' of
                         None \<Rightarrow> LOGIN_REDIRECT_URL st | Some n \<Rightarrow> n)
      in validate_referral_url sys
           (if came_from = [] then LOGIN_REDIRECT_URL st else came_from))"

text \<open>
  Lines 252 to 257: when the branch of the binding has given a session id and a
  response, the pair of session id and \<open>came_from\<close> is stored in the outstanding queries
  of the session that \<^verbatim>\<open>get_saml_request_session\<close> answers with.
\<close>

definition login_finish ::
  "site \<Rightarrow> request \<Rightarrow> string \<Rightarrow> (string \<times> http_response) flow \<Rightarrow> view_result" where
  "login_finish sys request came_from sent =
     (case sent of
        Raise e \<Rightarrow> (Inl e, request)
      | Return r \<Rightarrow> (Inr r, request)
      | Continue (session_id, http_response) \<Rightarrow>
          (Inr http_response,
           set_saml_request_session sys request
             (oq_set (get_saml_request_session sys request) session_id came_from)))"

text \<open>The view itself.\<close>

definition login :: "settings \<Rightarrow> site \<Rightarrow> login_env \<Rightarrow> login_args \<Rightarrow> request \<Rightarrow> view_result" where
  "login st sys env args request =
     (let came_from = login_came_from st sys request
      in
      if user_is_authenticated request then
        (if (case SAML_IGNORE_AUTHENTICATED_USERS_ON_LOGIN st of None \<Rightarrow> True | Some b \<Rightarrow> b)
         then (Inr (HttpResponseRedirect came_from), request)
         else (Inr (Render (authorization_error_template args)
                      [(''came_from'', CStr came_from)] 200), request))
      else
        (case get_config sys of
           Inl SourceNotFound \<Rightarrow>
             (Inr (HttpResponse
                ''Error, IdP EntityID was not found in metadata: Please contact technical support.''
                500), request)
         | Inl e \<Rightarrow> (Inl e, request)
         | Inr c \<Rightarrow>
             (case select_idp args (GET request ''idp'') (available_idps c) came_from of
                Raise e \<Rightarrow> (Inl e, request)
              | Return r \<Rightarrow> (Inr r, request)
              | Continue selected_idp \<Rightarrow>
                  (case choose_binding (sp_authn_requests_signed c)
                          (idp_sso_supported_bindings c selected_idp) of
                     Inl e \<Rightarrow> (Inl e, request)
                   | Inr binding \<Rightarrow>
                       login_finish sys request came_from
                         (if binding = BINDING_HTTP_REDIRECT then
                            login_redirect sys env c selected_idp came_from (login_kwargs c)
                          else if binding = BINDING_HTTP_POST then
                            login_post env args selected_idp came_from (login_kwargs c)
                          else Raise UnsupportedBinding)))))"

subsection \<open>The assertion consumer service\<close>

text \<open>
  What the view reads of the response object that pysaml2 parsed:
  \<^verbatim>\<open>response.session_id()\<close> and \<^verbatim>\<open>response.session_info()['name_id']\<close>.
\<close>

record 'n authn_response =
  session_id :: string
  name_id :: 'n

text \<open>
  pysaml2's parser (given the payload, the binding and the snapshot of outstanding
  queries), Django's \<^verbatim>\<open>auth.authenticate\<close>, the access token of
  \<^verbatim>\<open>RefreshToken.for_user(user)\<close>, and pysaml2's \<open>code\<close>.
\<close>

record 'n acs_env =
  parse_authn_request_response ::
    "string \<Rightarrow> binding \<Rightarrow> (string \<rightharpoonup> string) \<Rightarrow> exn + 'n authn_response option"
  authenticate :: "'n authn_response \<Rightarrow> string option"
  access_token :: "string \<Rightarrow> string"
  code :: "'n \<Rightarrow> string"

text \<open>
  The exceptions that the \<^verbatim>\<open>except\<close> clauses of lines 303 to 326 catch; each is
  answered with \<^verbatim>\<open>fail_acs_response(request, exception=e)\<close>.
\<close>

fun acs_caught :: "exn \<Rightarrow> bool" where
  "acs_caught StatusError = True"
| "acs_caught ToEarly = True"
| "acs_caught ResponseLifetimeExceed = True"
| "acs_caught SignatureError = True"
| "acs_caught StatusAuthnFailed = True"
| "acs_caught StatusRequestDenied = True"
| "acs_caught StatusNoAuthnContext = True"
| "acs_caught MissingKey = True"
| "acs_caught UnsolicitedResponse = True"
| "acs_caught _ = False"

text \<open>The hooks of the view class, as the class itself defines them.\<close>

definition customize_relay_state :: "string \<Rightarrow> string" where
  "customize_relay_state relay_state = relay_state"

definition custom_redirect :: "string \<Rightarrow> string \<Rightarrow> string option" where
  "custom_redirect user relay_state = None"

definition build_relay_state :: "settings \<Rightarrow> request \<Rightarrow> string" where
  "build_relay_state st request =
     (let default_relay_state =
            (case ACS_DEFAULT_REDIRECT_URL st of
               None \<Rightarrow> LOGIN_REDIRECT_URL st | Some u \<Rightarrow> u);
          relay_state = customize_relay_state
            (case POST request ''RelayState'' of None \<Rightarrow> ''/'' | Some r \<Rightarrow> r)
      in if relay_state = [] then default_relay_state else relay_state)"

text \<open>
  \<^verbatim>\<open>AssertionConsumerServiceView.post\<close>. The entry of the response's request id is
  deleted from the outstanding queries at line 333, before the user is authenticated.
\<close>

definition post :: "settings \<Rightarrow> site \<Rightarrow> 'n acs_env \<Rightarrow> request \<Rightarrow> view_result" where
  "post st sys env request =
     (case get_config sys of
        Inl e \<Rightarrow> (Inl e, request)
      | Inr c \<Rightarrow>
     (case POST request ''SAMLResponse'' of
        None \<Rightarrow> (Inl SuspiciousOperation, request)
      | Some xmlstr \<Rightarrow>
     (case parse_authn_request_response env xmlstr BINDING_HTTP_POST
             (oq_outstanding_queries (req_session request)) of
        Inl e \<Rightarrow>
          if acs_caught e then (Inr (FailAcsResponse e None), request)
          else (Inl e, request)
      | Inr None \<Rightarrow> (Inr (FailAcsResponse SuspiciousOperation (Some 400)), request)
      | Inr (Some response) \<Rightarrow>
          (let request1 = request\<lparr>req_session :=
                 oq_delete (req_session request) (session_id response)\<rparr>
           in case authenticate env response of
                None \<Rightarrow> (Inr (FailAcsResponse PermissionDenied None), request1)
              | Some user \<Rightarrow>
                  (let request2 = request1\<lparr>req_session :=
                         set_subject_id (code env) (req_session request1) (name_id response)\<rparr>;
                       relay_state = build_relay_state st request2
                   in case custom_redirect user relay_state of
                        Some custom_redirect_url \<Rightarrow>
                          (Inr (RedirectWithCookie custom_redirect_url (access_token env user)),
                           request2)
                      | None \<Rightarrow>
                          (Inr (RedirectWithCookie (validate_referral_url sys relay_state)
                                  (access_token env user)),
                           request2))))))"

subsection \<open>Logout\<close>

text \<open>
  One value of the dictionary that \<^verbatim>\<open>client.global_logout\<close> returns: a tuple of a
  binding and an \<^verbatim>\<open>http_info\<close>, or (after a SOAP logout) the parsed logout response,
  of which the views read \<^verbatim>\<open>status_ok()\<close>.
\<close>

datatype logout_info = LogoutTuple binding http_info | LogoutSoap bool

text \<open>
  pysaml2's \<open>decode\<close> and the operations of \<^verbatim>\<open>Saml2Client\<close> that the logout views
  call. \<open>global_logout\<close> is given the session that holds the client's caches and the
  subject id; it gives its result (or the exception it raised) together with the state
  cache as it has left it.
\<close>

record 'n logout_env =
  decode :: "string \<Rightarrow> 'n"
  global_logout ::
    "session \<Rightarrow> 'n option
      \<Rightarrow> (exn + (string \<times> logout_info) list) \<times> (string \<rightharpoonup> string)"
  parse_logout_request_response :: "string \<Rightarrow> binding \<Rightarrow> exn + bool option"
  handle_logout_request :: "string \<Rightarrow> 'n \<Rightarrow> binding \<Rightarrow> string \<Rightarrow> exn + http_info"

text \<open>
  Django's \<^verbatim>\<open>auth.logout(request)\<close>: it flushes \<^verbatim>\<open>request.session\<close> and makes the user
  of the request anonymous.
\<close>

definition auth_logout :: "request \<Rightarrow> request" where
  "auth_logout request =
     request\<lparr>user_is_authenticated := False,
             req_session := flush (req_session request),
             auth_logout_calls := Suc (auth_logout_calls request)\<rparr>"

definition do_local_logout :: "request \<Rightarrow> request" where
  "do_local_logout request =
     (if user_is_authenticated request then auth_logout request else request)"

text \<open>
  \<^verbatim>\<open>django_logout(request, next_page=next_page)\<close>, Django's own logout view: it calls
  \<^verbatim>\<open>auth.logout(request)\<close>, whoever the user is, and answers for \<^verbatim>\<open>next_page\<close>.
\<close>

definition django_logout :: "request \<Rightarrow> string option \<Rightarrow> http_response \<times> request" where
  "django_logout request next_page = (DjangoLogout next_page, auth_logout request)"

definition finish_logout ::
  "settings \<Rightarrow> request \<Rightarrow> bool option \<Rightarrow> string option \<Rightarrow> http_response \<times> request" where
  "finish_logout st request response next_page =
     (if response = Some True then
        django_logout request
          (case next_page of None \<Rightarrow> Some (LOGOUT_REDIRECT_URL st) | Some p \<Rightarrow> Some p)
      else (Render ''djangosaml2/logout_error.html'' [] 200, request))"





text \<open>
  Lines 571 to 581: the form that pysaml2 prepared when the answer goes out by POST,
  a redirect otherwise.
\<close>

definition logout_response_of :: "site \<Rightarrow> http_info \<Rightarrow> http_response" where
  "logout_response_of sys http_info =
     (case hi_data http_info of
        Some body \<Rightarrow>
          if (case hi_method http_info of None \<Rightarrow> ''GET'' | Some m \<Rightarrow> m) = ''POST'' \<and>
             (''Content-type'', ''text/html'') \<in>
               set (case hi_headers http_info of None \<Rightarrow> [] | Some h \<Rightarrow> h)
          then HttpResponse body 200
          else HttpResponseRedirect (get_location sys http_info)
      | None \<Rightarrow> HttpResponseRedirect (get_location sys http_info))"

text \<open>
  Lines 539 to 544 of \<^verbatim>\<open>do_logout_service\<close>: the state cache is read from the session
  and \<^verbatim>\<open>state.sync()\<close> writes it back at once.
\<close>

definition logout_service_sync :: "site \<Rightarrow> request \<Rightarrow> request" where
  "logout_service_sync sys request =
     (let saml_session = get_saml_request_session sys request;
          state = StateCache saml_session
      in set_saml_request_session sys request (state_sync state saml_session))"

text \<open>
  \<^verbatim>\<open>do_logout_service\<close>, with the parameters \<open>data\<close>, the binding, \<^verbatim>\<open>next_page\<close> and
  \<^verbatim>\<open>logout_error_template\<close> of the source.
\<close>

definition do_logout_service ::
  "settings \<Rightarrow> site \<Rightarrow> 'n logout_env \<Rightarrow> request \<Rightarrow> (string \<rightharpoonup> string) \<Rightarrow> binding
    \<Rightarrow> string option \<Rightarrow> string \<Rightarrow> view_result" where
  "do_logout_service st sys env request data binding next_page logout_error_template =
     (case get_config sys of
        Inl e \<Rightarrow> (Inl e, request)
      | Inr c \<Rightarrow>
          (let request1 = logout_service_sync sys request
           in case data ''SAMLResponse'' of
                Some saml_response \<Rightarrow>
                  (case parse_logout_request_response env saml_response binding of
                     Inl e \<Rightarrow> (Inl e, request1)
                   | Inr response \<Rightarrow>
                       (case finish_logout st request1 response next_page of
                          (r, request2) \<Rightarrow> (Inr r, request2)))
              | None \<Rightarrow>
                  (case data ''SAMLRequest'' of
                     Some saml_request \<Rightarrow>
                       (case get_subject_id (decode env)
                               (get_saml_request_session sys request1) of
                          None \<Rightarrow>
                            (Inr (Render logout_error_template [] 403),
                             do_local_logout request1)
                        | Some subject_id \<Rightarrow>
                            (case handle_logout_request env saml_request subject_id binding
                                    (case data ''RelayState'' of None \<Rightarrow> [] | Some r \<Rightarrow> r) of
                               Inl e \<Rightarrow> (Inl e, request1)
                             | Inr http_info \<Rightarrow>
                                 (Inr (logout_response_of sys http_info),
                                  do_local_logout request1)))
                   | None \<Rightarrow> (Inl Http404, request1))))"

definition logout_service ::
  "settings \<Rightarrow> site \<Rightarrow> 'n logout_env \<Rightarrow> request \<Rightarrow> string option \<Rightarrow> string \<Rightarrow> view_result" where
  "logout_service st sys env request next_page logout_error_template =
     do_logout_service st sys env request (GET request) BINDING_HTTP_REDIRECT
       next_page logout_error_template"

text \<open>
  \<^verbatim>\<open>logout_service_post\<close>: \<^verbatim>\<open>except Exception as e\<close> logs the error and the function
  ends without a \<^verbatim>\<open>return\<close>, so that the caller receives Python's \<^verbatim>\<open>None\<close>, here
  \<open>Inr None\<close>.
\<close>

definition logout_service_post ::
  "settings \<Rightarrow> site \<Rightarrow> 'n logout_env \<Rightarrow> request \<Rightarrow> string option \<Rightarrow> string
    \<Rightarrow> (exn + http_response option) \<times> request" where
  "logout_service_post st sys env request next_page logout_error_template =
     (case do_logout_service st sys env request (POST request) BINDING_HTTP_POST
             next_page logout_error_template of
        (Inl e, request') \<Rightarrow> (Inr None, request')
      | (Inr response, request') \<Rightarrow> (Inr (Some response), request'))"

subsection \<open>What it means that a logout request went out\<close>


subsection \<open>Sample deployment\<close>

text \<open>
  A service provider with two identity providers, whose SAML data lives in a session
  store of its own. The browser has one outstanding login (request id \<open>id-1\<close>, to return
  to \<open>/dashboard\<close>) in \<^verbatim>\<open>request.session\<close>, and the SAML store holds the subject id of
  \<open>alice\<close>. The stand-ins for pysaml2: a parser that accepts one payload, answering
  request \<open>id-1\<close>, only while that request is outstanding, and one that accepts it
  whatever is outstanding (unsolicited responses allowed); a client that refuses a logout
  without a subject id.
\<close>

definition ex_session :: session where
  "ex_session = \<lparr>saml2_subject_id = None, oq_objects = Some [''id-1'' \<mapsto> ''/dashboard''],
                  state_objects = None, session_modified = False\<rparr>"

definition ex_saml_session :: session where
  "ex_saml_session = \<lparr>saml2_subject_id = Some ''0=alice'', oq_objects = None,
                       state_objects = None, session_modified = False\<rparr>"

definition ex_request :: request where
  "ex_request = \<lparr>GET = Map.empty, POST = Map.empty, user_is_authenticated = True,
                  req_session = ex_session, saml_session = ex_saml_session,
                  auth_logout_calls = 0\<rparr>"

definition ex_settings :: settings where
  "ex_settings = \<lparr>LOGIN_REDIRECT_URL = ''/home'', LOGOUT_REDIRECT_URL = ''/bye'',
                   SAML_IGNORE_AUTHENTICATED_USERS_ON_LOGIN = None,
                   ACS_DEFAULT_REDIRECT_URL = None\<rparr>"

definition ex_conf :: conf where
  "ex_conf = \<lparr>sp_force_authn = False, sp_allow_create = False,
               sp_authn_requests_signed = False, sp_authn_requests_signed_alg = None,
               available_idps = [(''idp-one'', ''One''), (''idp-two'', ''Two'')],
               idp_sso_supported_bindings = (\<lambda>idp. [BINDING_HTTP_REDIRECT])\<rparr>"

definition ex_location :: "http_info \<Rightarrow> string" where
  "ex_location info =
     (case hi_headers info of
        Some [(k, v)] \<Rightarrow> if k = ''Location'' then v else []
      | _ \<Rightarrow> [])"

definition ex_site :: site where
  "ex_site = \<lparr>get_config = Inr ex_conf, validate_referral_url = (\<lambda>u. u),
               get_location = ex_location, saml_session_ref = SamlSession\<rparr>"

definition ex_redirect_info :: "string \<Rightarrow> http_info" where
  "ex_redirect_info url =
     \<lparr>hi_method = Some ''GET'', hi_data = None, hi_headers = Some [(''Location'', url)]\<rparr>"

definition ex_form_info :: "string \<Rightarrow> http_info" where
  "ex_form_info body =
     \<lparr>hi_method = Some ''POST'', hi_data = Some body,
      hi_headers = Some [(''Content-type'', ''text/html'')]\<rparr>"

definition ex_client :: "exn + (string \<times> logout_info) list \<Rightarrow> string logout_env" where
  "ex_client result =
     \<lparr>decode = drop 2,
      global_logout =
        (\<lambda>s subject.
           case subject of
             None \<Rightarrow> (Inl (OtherError ''AttributeError''), StateCache s)
           | Some n \<Rightarrow> (result, (StateCache s)(''req-1'' \<mapsto> ''idp-one''))),
      parse_logout_request_response = (\<lambda>xml b. Inr (Some True)),
      handle_logout_request =
        (\<lambda>xml subject b relay. Inr (ex_redirect_info ''https://idp-one/slo''))\<rparr>"

definition ex_logout_env :: "string logout_env" where
  "ex_logout_env = ex_client (Inl LogoutError)"





definition ex_login_env :: login_env where
  "ex_login_env =
     \<lparr>prepare_for_authenticate =
        (\<lambda>idp relay b sign kw.
           Inr (''id-1'', \<lparr>hi_method = Some ''GET'', hi_data = Some (''form for '' @ b),
                          hi_headers = Some [(''Location'', ''https://idp-one/sso?via='' @ b)]\<rparr>)),
      sso_location = (\<lambda>idp b. Inr (''https://idp-one/sso?via='' @ b)),
      create_authn_request = (\<lambda>loc b kw. Inr (''id-1'', ''<AuthnRequest/>'')),
      template_exists = (\<lambda>t. True),
      b64encode = (\<lambda>x. x)\<rparr>"

definition ex_login_args :: login_args where
  "ex_login_args =
     \<lparr>wayf_template = ''djangosaml2/wayf.html'',
      authorization_error_template = ''djangosaml2/auth_error.html'',
      post_binding_form_template = Some ''djangosaml2/post_binding_form.html''\<rparr>"

definition ex_login_request :: request where
  "ex_login_request =
     ex_request\<lparr>user_is_authenticated := False,
                GET := [''idp'' \<mapsto> ''idp-one'', ''next'' \<mapsto> ''/reports'']\<rparr>"

definition ex_acs_env :: "string acs_env" where
  "ex_acs_env =
     \<lparr>parse_authn_request_response =
        (\<lambda>xml b oq. if xml = ''response-to-id-1''
                     then (if oq ''id-1'' \<noteq> None
                           then Inr (Some \<lparr>session_id = ''id-1'', name_id = ''alice''\<rparr>)
                           else Inl UnsolicitedResponse)
                     else Inr None),
      authenticate = (\<lambda>r. Some (name_id r)),
      access_token = (\<lambda>u. ''token''),
      code = (\<lambda>n. ''0='' @ n)\<rparr>"

definition ex_lenient_acs_env :: "string acs_env" where
  "ex_lenient_acs_env =
     ex_acs_env\<lparr>parse_authn_request_response :=
       (\<lambda>xml b oq. if xml = ''response-to-id-1''
                    then Inr (Some \<lparr>session_id = ''id-1'', name_id = ''alice''\<rparr>)
                    else Inr None)\<rparr>"

definition ex_acs_request :: request where
  "ex_acs_request =
     ex_request\<lparr>POST := [''SAMLResponse'' \<mapsto> ''response-to-id-1'', ''RelayState'' \<mapsto> ''/dashboard''],
                user_is_authenticated := False\<rparr>"

definition ex_acs_request_after :: request where
  "ex_acs_request_after =
     ex_acs_request\<lparr>req_session :=
        \<lparr>saml2_subject_id = Some ''0=alice'', oq_objects = Some Map.empty,
         state_objects = None, session_modified = True\<rparr>\<rparr>"

definition ex_garbage_request :: request where
  "ex_garbage_request = ex_acs_request\<lparr>POST := [''SAMLResponse'' \<mapsto> ''garbage'']\<rparr>"







section \<open>Properties\<close>

subsection \<open>Helper facts\<close>


lemmas ex_defs = ex_session_def ex_saml_session_def ex_request_def ex_settings_def ex_conf_def
  ex_location_def ex_site_def ex_redirect_info_def ex_form_info_def ex_client_def
  ex_logout_env_def

lemmas ex2_defs = ex_login_env_def ex_login_args_def ex_login_request_def ex_acs_env_def
  ex_lenient_acs_env_def ex_acs_request_def

lemma oq_outstanding_queries_delete:
  "oq_outstanding_queries (oq_delete s i) = (oq_outstanding_queries s)(i := None)"
  by (auto simp: oq_delete_def oq_outstanding_queries_def)

lemma oq_outstanding_queries_subject:
  "oq_outstanding_queries (set_subject_id enc s n) = oq_outstanding_queries s"
  by (simp add: set_subject_id_def oq_outstanding_queries_def)

lemma post_parse_response:
  "get_config sys = Inr c \<Longrightarrow> POST request ''SAMLResponse'' = Some xmlstr \<Longrightarrow>
   parse_authn_request_response env xmlstr BINDING_HTTP_POST
     (oq_outstanding_queries (req_session request)) = Inr (Some response) \<Longrightarrow>
   oq_outstanding_queries (req_session (snd (post st sys env request))) =
     (oq_outstanding_queries (req_session request))(session_id response := None) \<and>
   POST (snd (post st sys env request)) = POST request \<and>
   fst (post st sys env request) =
     (case authenticate env response of
        None \<Rightarrow> Inr (FailAcsResponse PermissionDenied None)
      | Some user \<Rightarrow>
          Inr (RedirectWithCookie (validate_referral_url sys (build_relay_state st request))
                 (access_token env user)))"
  by (simp add: post_def Let_def oq_outstanding_queries_delete oq_outstanding_queries_subject
        custom_redirect_def build_relay_state_def split: option.splits)


lemma post_missing_parameter:
  "POST request ''SAMLResponse'' = None \<Longrightarrow> get_config sys = Inr c \<Longrightarrow>
   post st sys env request = (Inl SuspiciousOperation, request)"
  by (simp add: post_def)









lemma set_saml_request_session_user [simp]:
  "user_is_authenticated (set_saml_request_session sys request s) =
     user_is_authenticated request"
  "auth_logout_calls (set_saml_request_session sys request s) = auth_logout_calls request"
  by (simp_all add: set_saml_request_session_def split: session_ref.splits)

lemma get_set_saml_request_session [simp]:
  "get_saml_request_session sys (set_saml_request_session sys request s) = s"
  by (simp add: get_saml_request_session_def set_saml_request_session_def
        split: session_ref.splits)

lemma StateCache_state_sync [simp]: "StateCache (state_sync state s) = state"
  by (simp add: StateCache_def state_sync_def)






lemma logout_service_sync_subject [simp]:
  "saml2_subject_id (get_saml_request_session sys (logout_service_sync sys request)) =
     saml2_subject_id (get_saml_request_session sys request)"
  by (simp add: logout_service_sync_def Let_def state_sync_def)

lemma get_subject_id_sync [simp]:
  "get_subject_id dec (get_saml_request_session sys (logout_service_sync sys request)) =
     get_subject_id dec (get_saml_request_session sys request)"
  by (simp add: get_subject_id_def)

lemma logout_service_post_never_raises:
  "fst (logout_service_post st sys env request next_page t) \<noteq> Inl e"
  by (simp add: logout_service_post_def split: prod.splits sum.splits)

subsection \<open>Single use of an outstanding exchange\<close>




subsection \<open>Local logout on logout initiation\<close>




subsection \<open>Logout with sessions at several entities\<close>




subsection \<open>The outstanding queries when the consumer service fails\<close>

text \<open>
  C4, as stated, fails: when the response parses and local authentication then gives no
  user, the view answers with the failure response for \<open>PermissionDenied\<close>, and the
  entry has been deleted.
\<close>

theorem acs_failure_counterexample:
  "fst (post ex_settings ex_site (ex_acs_env\<lparr>authenticate := (\<lambda>r. None)\<rparr>) ex_acs_request) =
     Inr (FailAcsResponse PermissionDenied None) \<and>
   oq_outstanding_queries (req_session ex_acs_request) ''id-1'' = Some ''/dashboard'' \<and>
   oq_outstanding_queries
     (req_session (snd (post ex_settings ex_site (ex_acs_env\<lparr>authenticate := (\<lambda>r. None)\<rparr>)
        ex_acs_request))) ''id-1'' = None"
  by (simp add: post_def ex_defs ex2_defs oq_outstanding_queries_def oq_delete_def)

text \<open>
  C4, amended. When parsing raises (a caught exception is answered with the failure
  response, any other goes up) or gives \<^verbatim>\<open>None\<close>, the request and its session are
  unchanged. Once parsing has given a response the entry of its request id is deleted,
  whether local authentication then succeeds or not.
\<close>

theorem acs_cache_on_failure:
  "get_config sys = Inr c \<Longrightarrow> POST request ''SAMLResponse'' = Some xmlstr \<Longrightarrow>
   parse_authn_request_response env xmlstr BINDING_HTTP_POST
     (oq_outstanding_queries (req_session request)) = res \<Longrightarrow>
   (\<forall>e. res = Inl e \<longrightarrow>
      post st sys env request =
        (if acs_caught e then Inr (FailAcsResponse e None) else Inl e, request)) \<and>
   (res = Inr None \<longrightarrow>
      post st sys env request =
        (Inr (FailAcsResponse SuspiciousOperation (Some 400)), request)) \<and>
   (\<forall>response. res = Inr (Some response) \<longrightarrow>
      oq_outstanding_queries (req_session (snd (post st sys env request))) =
        (oq_outstanding_queries (req_session request))(session_id response := None))"
  using post_parse_response [of sys c request xmlstr env _ st]
  by (auto simp: post_def)

theorem acs_cache_on_failure_witness:
  "get_config ex_site = Inr ex_conf \<and>
   POST ex_acs_request_after ''SAMLResponse'' = Some ''response-to-id-1'' \<and>
   parse_authn_request_response ex_acs_env ''response-to-id-1'' BINDING_HTTP_POST
     (oq_outstanding_queries (req_session ex_acs_request_after)) = Inl UnsolicitedResponse \<and>
   post ex_settings ex_site ex_acs_env ex_acs_request_after =
     (Inr (FailAcsResponse UnsolicitedResponse None), ex_acs_request_after) \<and>
   POST ex_garbage_request ''SAMLResponse'' = Some ''garbage'' \<and>
   parse_authn_request_response ex_acs_env ''garbage'' BINDING_HTTP_POST
     (oq_outstanding_queries (req_session ex_garbage_request)) = Inr None \<and>
   post ex_settings ex_site ex_acs_env ex_garbage_request =
     (Inr (FailAcsResponse SuspiciousOperation (Some 400)), ex_garbage_request) \<and>
   POST ex_acs_request ''SAMLResponse'' = Some ''response-to-id-1'' \<and>
   parse_authn_request_response ex_acs_env ''response-to-id-1'' BINDING_HTTP_POST
     (oq_outstanding_queries (req_session ex_acs_request)) =
     Inr (Some \<lparr>session_id = ''id-1'', name_id = ''alice''\<rparr>) \<and>
   oq_outstanding_queries
     (req_session (snd (post ex_settings ex_site ex_acs_env ex_acs_request))) =
     (oq_outstanding_queries (req_session ex_acs_request))(''id-1'' := None)"
  using
    acs_cache_on_failure [of ex_site ex_conf ex_acs_request_after "''response-to-id-1''"
      ex_acs_env "Inl UnsolicitedResponse" ex_settings]
    acs_cache_on_failure [of ex_site ex_conf ex_garbage_request "''garbage''"
      ex_acs_env "Inr None" ex_settings]
    acs_cache_on_failure [of ex_site ex_conf ex_acs_request "''response-to-id-1''"
      ex_acs_env "Inr (Some \<lparr>session_id = ''id-1'', name_id = ''alice''\<rparr>)" ex_settings]
  by (simp add: ex_defs ex2_defs ex_acs_request_after_def ex_garbage_request_def
        oq_outstanding_queries_def)

subsection \<open>Binding selection of the login view\<close>



subsection \<open>Errors of the POST logout endpoint\<close>

text \<open>
  C6. On a POST without \<^verbatim>\<open>SAMLResponse\<close> and \<^verbatim>\<open>SAMLRequest\<close> the POST endpoint hands
  back \<^verbatim>\<open>None\<close>, whereas the Redirect endpoint raises \<open>Http404\<close> on the same data.
\<close>

theorem logout_service_post_swallows:
  "logout_service_post ex_settings ex_site ex_logout_env ex_request None
      ''djangosaml2/logout_error.html'' = (Inr None, logout_service_sync ex_site ex_request) \<and>
   logout_service ex_settings ex_site ex_logout_env ex_request None
      ''djangosaml2/logout_error.html'' = (Inl Http404, logout_service_sync ex_site ex_request)"
  by (simp add: logout_service_post_def logout_service_def do_logout_service_def
      ex_site_def ex_request_def)

subsection \<open>Discovery\<close>

text \<open>
  C7, as stated, fails: for a user who is already logged in, the login view redirects
  to the page the user came from, also with two IdPs configured and no \<^verbatim>\<open>idp\<close>
  parameter.
\<close>

theorem login_discovery_counterexample:
  "get_config ex_site = Inr ex_conf \<and> length (available_idps ex_conf) > 1 \<and>
   GET ex_request ''idp'' = None \<and>
   login ex_settings ex_site ex_login_env ex_login_args ex_request =
     (Inr (HttpResponseRedirect ''/home''), ex_request)"
  by (simp add: login_def login_came_from_def ex_defs ex2_defs)

text \<open>
  C7, amended. For a user who is not logged in, with more than one IdP configured and no
  \<^verbatim>\<open>idp\<close> parameter, the login view renders the discovery template with the available
  IdPs; the request and its session are unchanged, so that no request id is recorded.
\<close>

theorem login_discovery:
  "\<not> user_is_authenticated request \<Longrightarrow> get_config sys = Inr c \<Longrightarrow>
   length (available_idps c) > 1 \<Longrightarrow> GET request ''idp'' = None \<Longrightarrow>
   \<exists>came_from.
     login st sys env args request =
       (Inr (Render (wayf_template args)
               [(''available_idps'', CItems (available_idps c)), (''came_from'', CStr came_from)]
               200), request)"
  by (simp add: login_def select_idp_def Let_def)

theorem login_discovery_witness:
  "\<not> user_is_authenticated (ex_request\<lparr>user_is_authenticated := False\<rparr>) \<and>
   get_config ex_site = Inr ex_conf \<and> length (available_idps ex_conf) > 1 \<and>
   GET (ex_request\<lparr>user_is_authenticated := False\<rparr>) ''idp'' = None \<and>
   (\<exists>came_from.
     login ex_settings ex_site ex_login_env ex_login_args
        (ex_request\<lparr>user_is_authenticated := False\<rparr>) =
       (Inr (Render ''djangosaml2/wayf.html''
               [(''available_idps'', CItems [(''idp-one'', ''One''), (''idp-two'', ''Two'')]),
                (''came_from'', CStr came_from)] 200),
        ex_request\<lparr>user_is_authenticated := False\<rparr>))"
  using login_discovery [of "ex_request\<lparr>user_is_authenticated := False\<rparr>" ex_site ex_conf
    ex_settings ex_login_env ex_login_args]
  by (simp add: ex_defs ex2_defs)

subsection \<open>Logout requested by the IdP\<close>



subsection \<open>Logout service without a message\<close>

text \<open>
  C9, as stated, fails: before it looks at the data, the view writes the state cache
  back to the session, which gains the key of the logout state and is marked as
  modified.
\<close>

theorem logout_service_touches_session_counterexample:
  "POST ex_request ''SAMLResponse'' = None \<and> POST ex_request ''SAMLRequest'' = None \<and>
   fst (do_logout_service ex_settings ex_site ex_logout_env ex_request (POST ex_request)
          BINDING_HTTP_POST None ''djangosaml2/logout_error.html'') = Inl Http404 \<and>
   state_objects (get_saml_request_session ex_site ex_request) = None \<and>
   \<not> session_modified (get_saml_request_session ex_site ex_request) \<and>
   state_objects (get_saml_request_session ex_site
     (snd (do_logout_service ex_settings ex_site ex_logout_env ex_request (POST ex_request)
             BINDING_HTTP_POST None ''djangosaml2/logout_error.html''))) = Some Map.empty \<and>
   session_modified (get_saml_request_session ex_site
     (snd (do_logout_service ex_settings ex_site ex_logout_env ex_request (POST ex_request)
             BINDING_HTTP_POST None ''djangosaml2/logout_error.html'')))"
  by (simp add: do_logout_service_def logout_service_sync_def Let_def state_sync_def
        ex_site_def ex_request_def get_saml_request_session_def
        set_saml_request_session_def StateCache_def ex_saml_session_def)

text \<open>
  C9, amended. With neither \<^verbatim>\<open>SAMLResponse\<close> nor \<^verbatim>\<open>SAMLRequest\<close> in the data,
  \<^verbatim>\<open>do_logout_service\<close> raises \<open>Http404\<close>; the user stays as logged in as before, no
  logout runs, the result does not depend on the client, and the one write to the
  session is that of \<^verbatim>\<open>state.sync()\<close>, which stores the logout state just read.
\<close>

theorem logout_service_without_message:
  "get_config sys = Inr c \<Longrightarrow> data ''SAMLResponse'' = None \<Longrightarrow> data ''SAMLRequest'' = None \<Longrightarrow>
   do_logout_service st sys env request data binding next_page logout_error_template =
     (Inl Http404, logout_service_sync sys request) \<and>
   logout_service_sync sys request =
     set_saml_request_session sys request
       ((get_saml_request_session sys request)
          \<lparr>state_objects := Some (StateCache (get_saml_request_session sys request)),
           session_modified := True\<rparr>) \<and>
   user_is_authenticated (logout_service_sync sys request) = user_is_authenticated request \<and>
   auth_logout_calls (logout_service_sync sys request) = auth_logout_calls request"
  by (simp add: do_logout_service_def logout_service_sync_def Let_def state_sync_def)

theorem logout_service_without_message_witness:
  "get_config ex_site = Inr ex_conf \<and> POST ex_request ''SAMLResponse'' = None \<and>
   POST ex_request ''SAMLRequest'' = None \<and>
   do_logout_service ex_settings ex_site ex_logout_env ex_request (POST ex_request)
      BINDING_HTTP_POST None ''djangosaml2/logout_error.html'' =
     (Inl Http404,
      ex_request\<lparr>saml_session :=
        ex_saml_session\<lparr>state_objects := Some Map.empty, session_modified := True\<rparr>\<rparr>)"
  using logout_service_without_message [of ex_site ex_conf "POST ex_request" ex_settings
    ex_logout_env ex_request BINDING_HTTP_POST None "''djangosaml2/logout_error.html''"]
  by (simp add: ex_site_def ex_request_def get_saml_request_session_def
        set_saml_request_session_def StateCache_def ex_saml_session_def)

subsection \<open>Subject id round trip\<close>

text \<open>
  C10. Reading the subject id right after storing it gives back the stored name id,
  since pysaml2's \<open>decode\<close> (here \<open>dec\<close>) inverts its \<open>code\<close> (here \<open>enc\<close>) on it;
  on a session in which no subject id was ever
  stored the read gives \<open>None\<close> and does not raise.
\<close>

theorem subject_id_roundtrip:
  "(dec (enc subject) = subject \<longrightarrow>
      get_subject_id dec (set_subject_id enc s subject) = Some subject) \<and>
   (saml2_subject_id s = None \<longrightarrow> get_subject_id dec s = None)"
  by (simp add: get_subject_id_def set_subject_id_def)

theorem subject_id_roundtrip_witness:
  "drop 2 (''0='' @ ''alice'') = ''alice'' \<and>
   get_subject_id (drop 2) (set_subject_id (\<lambda>n. ''0='' @ n) ex_session ''alice'') =
     Some ''alice'' \<and>
   saml2_subject_id ex_session = None \<and>
   get_subject_id (drop 2) ex_session = None"
  using subject_id_roundtrip [of "drop 2" "\<lambda>n. ''0='' @ n" "''alice''" ex_session]
  by (simp add: ex_session_def)

end
